theory Spec2Isabelle
  imports Complex_Main
begin

unbundle bit_operations_syntax

section \<open>Data model\<close>

text \<open>
  The module \<^verbatim>\<open>SOL/bounding.py\<close> computes affine lower and upper bounds of a scalar
  function over a box. Its numpy arrays of floats are modelled as lists of reals: the
  arithmetic is the exact one, and the places where the floating-point computation leaves
  the finite numbers (a division by zero, a negative base under a fractional power) are
  written out as the exceptions they end in.

  A region is the array \<^verbatim>\<open>bound\<close> of rows \<^verbatim>\<open>(lb, ub)\<close>; a point is its list of
  coordinates. The two callables of the bounder are modelled pointwise (the source calls
  them on whole batches): \<open>target_function\<close> gives the value at a point, \<open>gradient\<close> the
  partial derivatives at a point, one per coordinate. The discrete solver is the function
  looked up in the registry \<^verbatim>\<open>BOUNDING_METHOD_NAME_TO_FUNCTION\<close>, which lives in another
  module: the registry is a parameter of the constructor.
\<close>

type_synonym point = "real list"
type_synonym region = "(real \<times> real) list"
type_synonym solver = "point list \<Rightarrow> real list \<Rightarrow> real \<Rightarrow> real list"

datatype error =
    TooFewInitialPoints       \<comment> \<open>\<^verbatim>\<open>assert self.initial_number_of_points > 2\<close>\<close>
  | UnknownDiscreteSolver     \<comment> \<open>\<^verbatim>\<open>'Unknown discrete solver'\<close>\<close>
  | NotEnoughPoints           \<comment> \<open>\<^verbatim>\<open>'Not enough points to properly fill the region'\<close>\<close>
  | GNotImplemented           \<comment> \<open>\<^verbatim>\<open>'Bounding G for dim > 1 is not implemented'\<close>\<close>
  | NeedDimPlusOnePoint       \<comment> \<open>\<^verbatim>\<open>'Need at least dim + 1 point'\<close>\<close>
  | BoundsWidth               \<comment> \<open>\<^verbatim>\<open>'Bounds must have positive width'\<close>\<close>
  | ZeroDivision              \<comment> \<open>\<^verbatim>\<open>1. / n\<close> with \<^verbatim>\<open>n = 0\<close>\<close>
  | CeilError                 \<comment> \<open>\<^verbatim>\<open>math.ceil\<close> raising on \<^verbatim>\<open>nan\<close> or \<^verbatim>\<open>inf\<close>\<close>
  | NumpyError                \<comment> \<open>numpy raising on an array of the wrong shape, or empty\<close>

record config =
  target_function :: "point \<Rightarrow> real"
  gradient :: "point \<Rightarrow> real list"
  eps :: real
  initial_number_of_points :: int
  L1 :: real
  L2 :: real
  discrete_solver :: solver

text \<open>The working arrays of the loop in \<^verbatim>\<open>_bound_one_side\<close>, one entry per sample.\<close>

record samples =
  points :: "point list"
  cell_diams :: "real list"
  point_act :: "real list"
  point_grad :: "real list list"

datatype outcome = Return "real list" | Refine samples

section \<open>The constructor\<close>

definition init ::
  "(string \<rightharpoonup> solver) \<Rightarrow> (point \<Rightarrow> real) \<Rightarrow> (point \<Rightarrow> real list) \<Rightarrow> real \<Rightarrow> real \<Rightarrow>
     real \<Rightarrow> int \<Rightarrow> string \<Rightarrow> error + config" where
  "init registry tf gr l1 l2 e initial_npoints solver_name =
     (if \<not> initial_npoints > 2 then Inl TooFewInitialPoints
      else case registry solver_name of
        None \<Rightarrow> Inl UnknownDiscreteSolver
      | Some s \<Rightarrow> Inr \<lparr>target_function = tf, gradient = gr, eps = e,
                       initial_number_of_points = initial_npoints, L1 = l1, L2 = l2,
                       discrete_solver = s\<rparr>)"

section \<open>The regular grid sampler\<close>

definition norm2 :: "real list \<Rightarrow> real" where
  "norm2 v = sqrt (sum_list (map (\<lambda>x. x\<^sup>2) v))"

definition dot :: "real list \<Rightarrow> real list \<Rightarrow> real" where
  "dot a b = sum_list (map2 (*) a b)"

text \<open>\<^verbatim>\<open>np.linspace(start, stop, num)\<close>; it is called with \<open>num > 1\<close> only.\<close>

definition linspace :: "real \<Rightarrow> real \<Rightarrow> nat \<Rightarrow> real list" where
  "linspace start stop num =
     map (\<lambda>i. start + real i * ((stop - start) / real (num - 1))) [0..<num]"

text \<open>
  The body of \<^verbatim>\<open>for b in bound\<close>: the number of cells of the axis, the assertion, the
  side of a cell and the midpoints of the cells. The first axis that fails raises.
\<close>

fun grid_axes :: "real \<Rightarrow> region \<Rightarrow> error + (real list list \<times> real list)" where
  "grid_axes reference_cell_side [] = Inr ([], [])"
| "grid_axes reference_cell_side (b # bs) =
     (let num_cells = \<lceil>(snd b - fst b) / reference_cell_side\<rceil>
      in if \<not> num_cells > 1 then Inl NotEnoughPoints
         else let current_cell_size = (snd b - fst b) / real_of_int num_cells;
                  grid = linspace (fst b + current_cell_size / 2)
                           (snd b - current_cell_size / 2) (nat num_cells)
              in case grid_axes reference_cell_side bs of
                   Inl e \<Rightarrow> Inl e
                 | Inr (grid_arrays, cell_sides) \<Rightarrow>
                     Inr (grid # grid_arrays, current_cell_size # cell_sides))"

text \<open>
  \<^verbatim>\<open>np.meshgrid(*grid_arrays)\<close>, each array flattened, stacked and transposed: the list of
  grid points. With the default \<^verbatim>\<open>indexing='xy'\<close> the second axis is the outermost one,
  then the first, then the others in their order.
\<close>

fun meshgrid_points :: "real list list \<Rightarrow> point list" where
  "meshgrid_points [] = []"
| "meshgrid_points [xs] = map (\<lambda>x. [x]) xs"
| "meshgrid_points (xs # ys # rest) =
     concat (map (\<lambda>y. concat (map (\<lambda>x. map (\<lambda>r. x # y # r) (product_lists rest)) xs)) ys)"

text \<open>
  \<^verbatim>\<open>_sample_points_regularly\<close>. What numpy does outside the finite numbers:
  \<^item> \<open>sample_size = 0\<close>: the quotient is \<^verbatim>\<open>nan\<close> for a zero volume (\<^verbatim>\<open>math.ceil\<close> raises on
    the first axis) and infinite otherwise (every axis gets \<^verbatim>\<open>ceil(0) = 0\<close> cells and the
    assertion fails);
  \<^item> a zero volume: the reference side is 0, the quotient of the first axis is infinite or
    \<^verbatim>\<open>nan\<close>, and \<^verbatim>\<open>math.ceil\<close> raises;
  \<^item> a negative base: \<^verbatim>\<open>x ** 1.0\<close> is \<open>x\<close>, and \<^verbatim>\<open>x ** (1. / n)\<close> is \<^verbatim>\<open>nan\<close> for
    \<open>n > 1\<close>, on which \<^verbatim>\<open>math.ceil\<close> raises.
\<close>

definition sample_points_regularly ::
  "region \<Rightarrow> int \<Rightarrow> error + (point list \<times> real list \<times> real list)" where
  "sample_points_regularly bound sample_size =
     (let n = length bound;
          region_volume = prod_list (map (\<lambda>b. snd b - fst b) bound)
      in if n = 0 then Inl ZeroDivision
         else if sample_size = 0
           then (if region_volume = 0 then Inl CeilError else Inl NotEnoughPoints)
         else let q = region_volume / real_of_int sample_size
           in if q = 0 \<or> (q < 0 \<and> n \<noteq> 1) then Inl CeilError
              else let reference_cell_side = (if q < 0 then q else q powr (1 / real n))
                in case grid_axes reference_cell_side bound of
                     Inl e \<Rightarrow> Inl e
                   | Inr (grid_arrays, cell_sides) \<Rightarrow>
                       let pts = meshgrid_points grid_arrays;
                           cell_diam = norm2 cell_sides;
                           side_to_diam_ratio = map (\<lambda>c. c / cell_diam) cell_sides
                       in Inr (pts, replicate (length pts) cell_diam, side_to_diam_ratio))"

section \<open>The geometric correction factor and the discrete fit\<close>

definition get_G_bound :: "region \<Rightarrow> error + real" where
  "get_G_bound bound = (if length bound = 1 then Inr 1 else Inl GNotImplemented)"

text \<open>
  \<^verbatim>\<open>_find_discrete_upper_bound\<close>. The solver's result is used as it comes: \<^verbatim>\<open>result[-1]\<close>
  raises on an empty array, and \<^verbatim>\<open>result[:-1] * center\<close> follows numpy's broadcasting of
  two one-dimensional arrays (equal lengths, or one of them of length 1; anything else
  raises).
\<close>

definition find_discrete_upper_bound ::
  "config \<Rightarrow> region \<Rightarrow> point list \<Rightarrow> real list \<Rightarrow> error + real list" where
  "find_discrete_upper_bound cfg bound pts vals =
     (let center = map (\<lambda>b. (fst b + snd b) / 2) bound;
          points_shifted = map (\<lambda>p. map2 (-) p center) pts;
          result = discrete_solver cfg points_shifted vals (eps cfg)
      in if result = [] then Inl NumpyError
         else let slopes = butlast result
           in if length slopes = length center
              then Inr (slopes @ [last result - sum_list (map2 (*) slopes center)])
              else if length slopes = 1
              then Inr (slopes @ [last result - sum_list (map (\<lambda>c. hd slopes * c) center)])
              else if length center = 1
              then Inr (slopes @ [last result - sum_list (map (\<lambda>s. s * hd center) slopes)])
              else Inl NumpyError)"

section \<open>The certification and subdivision engine\<close>

text \<open>
  The values and gradients at a batch of points, negated for a lower bound (lines 85 to 89
  and again 152 to 156 of the source).
\<close>

definition evaluate :: "config \<Rightarrow> bool \<Rightarrow> point list \<Rightarrow> real list \<times> real list list" where
  "evaluate cfg upper pts =
     (let act = map (target_function cfg) pts;
          grad = map (gradient cfg) pts
      in if \<not> upper then (map (\<lambda>a. a * - 1) act, map (map (\<lambda>g. g * - 1)) grad)
         else (act, grad))"

text \<open>Indexing an array by a boolean mask.\<close>

definition select :: "bool list \<Rightarrow> 'a list \<Rightarrow> 'a list" where
  "select sel xs = map snd (filter fst (zip sel xs))"

text \<open>The rows of \<^verbatim>\<open>subcube_offsets\<close> before the transposition: one sign vector per mask.\<close>

definition subcube_offsets :: "nat \<Rightarrow> real list list" where
  "subcube_offsets n =
     map (\<lambda>subcube_mask. map (\<lambda>dim. if subcube_mask AND push_bit dim 1 \<noteq> 0 then 1 else - 1) [0..<n])
       [0..<push_bit n (1::nat)]"

definition margins :: "config \<Rightarrow> real \<Rightarrow> real list \<Rightarrow> samples \<Rightarrow> real list" where
  "margins cfg G coeffs st =
     (let lin_grad = butlast coeffs;
          bound_diff = map2 (\<lambda>p a. dot lin_grad p + last coeffs - a) (points st) (point_act st);
          diffs = map2 (\<lambda>d bd. (1 + G) * L1 cfg * (d / 2) - bd) (cell_diams st) bound_diff;
          diffs2 = map2 (\<lambda>(g, d) bd. norm2 (map2 (-) lin_grad g) * (d / 2)
                                       + 0.5 * L2 cfg * (d / 2)\<^sup>2 - bd)
                     (zip (point_grad st) (cell_diams st)) bound_diff
      in map2 min diffs diffs2)"

text \<open>The samples of the next pass: the certified ones, then the children of the others.\<close>

definition subdivide :: "config \<Rightarrow> region \<Rightarrow> bool \<Rightarrow> real list \<Rightarrow> bool list \<Rightarrow> samples \<Rightarrow> samples" where
  "subdivide cfg bound upper offset_to_diam_ratio holds st =
     (let keep_points = select holds (points st);
          keep_cell_diams = select holds (cell_diams st);
          keep_point_act = select holds (point_act st);
          keep_point_grad = select holds (point_grad st);
          split_points = select (map Not holds) (points st);
          split_cell_diams = select (map Not holds) (cell_diams st);
          new_points = concat (map (\<lambda>signs.
              map2 (\<lambda>p d. map2 (+) p (map2 (\<lambda>s r. s * d * r) signs offset_to_diam_ratio))
                split_points split_cell_diams) (subcube_offsets (length bound)));
          new_cell_diams = concat (map (\<lambda>signs. map (\<lambda>d. d / 2) split_cell_diams)
              (subcube_offsets (length bound)));
          (new_point_act, new_point_grad) = evaluate cfg upper new_points
      in \<lparr>points = keep_points @ new_points,
          cell_diams = keep_cell_diams @ new_cell_diams,
          point_act = keep_point_act @ new_point_act,
          point_grad = keep_point_grad @ new_point_grad\<rparr>)"

text \<open>
  One pass through the body of \<^verbatim>\<open>while True\<close>. \<^verbatim>\<open>np.matmul(lin_grad, points)\<close> raises
  unless there is one slope per coordinate; \<^verbatim>\<open>np.max\<close> raises on an empty array.
\<close>

definition iteration ::
  "config \<Rightarrow> region \<Rightarrow> real \<Rightarrow> bool \<Rightarrow> real list \<Rightarrow> samples \<Rightarrow> error + outcome" where
  "iteration cfg bound G upper offset_to_diam_ratio st =
     (case find_discrete_upper_bound cfg bound (points st) (point_act st) of
        Inl e \<Rightarrow> Inl e
      | Inr coeffs \<Rightarrow>
          if length (butlast coeffs) \<noteq> length bound then Inl NumpyError
          else
          let min_diffs = margins cfg G coeffs st;
              holds = map (\<lambda>m. m < eps cfg) min_diffs
          in if list_all id holds
             then (if min_diffs = [] then Inl NumpyError
                   else let coeffs' = butlast coeffs @ [last coeffs + Max (set min_diffs)]
                        in Inr (Return (if \<not> upper then map (\<lambda>c. c * - 1) coeffs' else coeffs')))
             else Inr (Refine (subdivide cfg bound upper offset_to_diam_ratio holds st)))"

text \<open>The loop has no exit but its \<^verbatim>\<open>return\<close>: a run that never returns is \<open>None\<close>.\<close>

partial_function (option) engine_loop ::
  "config \<Rightarrow> region \<Rightarrow> real \<Rightarrow> bool \<Rightarrow> real list \<Rightarrow> samples \<Rightarrow> (error + real list) option" where
  "engine_loop cfg bound G upper offset_to_diam_ratio st =
     (case iteration cfg bound G upper offset_to_diam_ratio st of
        Inl e \<Rightarrow> Some (Inl e)
      | Inr (Return coeffs) \<Rightarrow> Some (Inr coeffs)
      | Inr (Refine st') \<Rightarrow> engine_loop cfg bound G upper offset_to_diam_ratio st')"

text \<open>The samples the loop starts from, with the factor \<open>G\<close> and the offset ratio.\<close>

definition initial_samples ::
  "config \<Rightarrow> region \<Rightarrow> bool \<Rightarrow> error + (real \<times> real list \<times> samples)" where
  "initial_samples cfg bound upper =
     (case get_G_bound bound of
        Inl e \<Rightarrow> Inl e
      | Inr G \<Rightarrow>
         (case sample_points_regularly bound (initial_number_of_points cfg) of
            Inl e \<Rightarrow> Inl e
          | Inr (pts, diams, side_to_diam_ratio) \<Rightarrow>
              let (act, grad) = evaluate cfg upper pts
              in if \<not> length pts > length bound then Inl NeedDimPlusOnePoint
                 else Inr (G, map (\<lambda>r. 0.25 * r) side_to_diam_ratio,
                           \<lparr>points = pts, cell_diams = diams, point_act = act,
                            point_grad = grad\<rparr>)))"

definition bound_one_side :: "config \<Rightarrow> region \<Rightarrow> bool \<Rightarrow> (error + real list) option" where
  "bound_one_side cfg bound upper =
     (case initial_samples cfg bound upper of
        Inl e \<Rightarrow> Some (Inl e)
      | Inr (G, offset_to_diam_ratio, st) \<Rightarrow> engine_loop cfg bound G upper offset_to_diam_ratio st)"

section \<open>The facade\<close>

definition width_check :: "region \<Rightarrow> bool" where
  "width_check bound = list_all (\<lambda>b. snd b - fst b > - (1 / 100000)) bound"

definition find_optimal_bounds ::
  "config \<Rightarrow> region \<Rightarrow> (error + real list \<times> real list) option" where
  "find_optimal_bounds cfg bound =
     (if \<not> width_check bound then Some (Inl BoundsWidth)
      else case bound_one_side cfg bound False of
             None \<Rightarrow> None
           | Some (Inl e) \<Rightarrow> Some (Inl e)
           | Some (Inr lower_coeffs) \<Rightarrow>
               (case bound_one_side cfg bound True of
                  None \<Rightarrow> None
                | Some (Inl e) \<Rightarrow> Some (Inl e)
                | Some (Inr upper_coeffs) \<Rightarrow> Some (Inr (lower_coeffs, upper_coeffs))))"

text \<open>
  The call sequence \<^verbatim>\<open>OptimalLinearBounder(...).find_optimal_bounds(bound)\<close>: a
  constructor that raises leaves no bounder to ask.
\<close>

definition construct_and_bound ::
  "(string \<rightharpoonup> solver) \<Rightarrow> (point \<Rightarrow> real) \<Rightarrow> (point \<Rightarrow> real list) \<Rightarrow> real \<Rightarrow> real \<Rightarrow>
     real \<Rightarrow> int \<Rightarrow> string \<Rightarrow> region \<Rightarrow> (error + real list \<times> real list) option" where
  "construct_and_bound registry tf gr l1 l2 e initial_npoints solver_name bound =
     (case init registry tf gr l1 l2 e initial_npoints solver_name of
        Inl err \<Rightarrow> Some (Inl err)
      | Inr cfg \<Rightarrow> find_optimal_bounds cfg bound)"

text \<open>A region in the sense of the data model: every interval has positive width.\<close>

definition valid_region :: "region \<Rightarrow> bool" where
  "valid_region bound = list_all (\<lambda>b. fst b < snd b) bound"

section \<open>Example inputs\<close>

text \<open>
  A solver that fits the horizontal line through the largest value, and a bounder for the
  constant function 0 that uses it.
\<close>

definition max_value_solver :: solver where
  "max_value_solver pts vals e = [0, (if vals = [] then 0 else Max (set vals))]"

definition flat_config :: config where
  "flat_config = \<lparr>target_function = (\<lambda>p. 0), gradient = (\<lambda>p. [0]), eps = 1 / 100,
     initial_number_of_points = 3, L1 = 1, L2 = 1, discrete_solver = max_value_solver\<rparr>"

section \<open>Notions used in the properties\<close>

text \<open>
  The bounder for \<open>- f\<close>: the target function and its gradient negated, everything else
  as it is.
\<close>

definition negated :: "config \<Rightarrow> config" where
  "negated cfg = cfg\<lparr>target_function := (\<lambda>p. - target_function cfg p),
                     gradient := (\<lambda>p. map uminus (gradient cfg p))\<rparr>"

definition negate_result :: "error + real list \<Rightarrow> error + real list" where
  "negate_result r = map_sum id (map uminus) r"


text \<open>
  The quantities of the certification test, for sample \<open>i\<close> and candidate coefficients
  \<open>coeffs\<close> (slopes first, intercept last), written as the specification does.
\<close>

definition bound_diff :: "real list \<Rightarrow> samples \<Rightarrow> nat \<Rightarrow> real" where
  "bound_diff coeffs st i = dot (butlast coeffs) (points st ! i) + last coeffs - point_act st ! i"










definition num_cells :: "real \<Rightarrow> real \<times> real \<Rightarrow> int" where
  "num_cells s b = \<lceil>(snd b - fst b) / s\<rceil>"



text \<open>Exchanging the first two coordinates: the order in which \<^verbatim>\<open>np.meshgrid\<close> runs through the grid.\<close>

fun swap12 :: "'a list \<Rightarrow> 'a list" where
  "swap12 (a # b # r) = b # a # r"
| "swap12 xs = xs"






text \<open>
  A solver that uses the whole slack its contract allows: the horizontal line \<open>eps\<close> below
  the largest value. The bounder \<open>stalling_config\<close> is \<open>flat_config\<close> with this solver, and
  \<open>stalled\<close> describes its working arrays.
\<close>

definition stalling_solver :: solver where
  "stalling_solver pts vals e = [0, (if vals = [] then 0 else Max (set vals)) - e]"

definition stalling_config :: config where
  "stalling_config = flat_config\<lparr>discrete_solver := stalling_solver\<rparr>"





inductive engine_reaches :: "config \<Rightarrow> region \<Rightarrow> bool \<Rightarrow> real \<Rightarrow> real list \<Rightarrow> samples \<Rightarrow> bool"
  for cfg :: config and bound :: region and upper :: bool
where
  start: "initial_samples cfg bound upper = Inr (G, r, st) \<Longrightarrow>
    engine_reaches cfg bound upper G r st"
| step: "engine_reaches cfg bound upper G r st \<Longrightarrow>
    iteration cfg bound G upper r st = Inr (Refine st') \<Longrightarrow>
    engine_reaches cfg bound upper G r st'"

section \<open>Failures\<close>

lemma norm2_single [simp]: "norm2 [x] = \<bar>x\<bar>"
  by (simp add: norm2_def)

lemma find_discrete_upper_bound_error:
  "find_discrete_upper_bound cfg bound pts vals = Inl e \<Longrightarrow> e = NumpyError"
  by (auto simp: find_discrete_upper_bound_def Let_def split: if_splits)

lemma iteration_error: "iteration cfg bound G upper r st = Inl e \<Longrightarrow> e = NumpyError"
  by (auto simp: iteration_def Let_def split: sum.splits if_splits
      dest: find_discrete_upper_bound_error)

lemma engine_loop_error:
  assumes ret: "engine_loop cfg bound G upper r st = Some res"
  shows "\<forall>e. res = Inl e \<longrightarrow> e = NumpyError"
proof (rule engine_loop.raw_induct
    [where P = "\<lambda>cfg bound G upper r st res. \<forall>e. res = Inl e \<longrightarrow> e = NumpyError", OF _ ret])
  fix f cfg bound G upper r st res
  assume IH: "\<And>cfg bound G upper r st res. f cfg bound G upper r st = Some res \<Longrightarrow>
      \<forall>e. res = Inl e \<longrightarrow> e = NumpyError"
    and eq: "(case iteration cfg bound G upper r st of
        Inl e \<Rightarrow> Some (Inl e)
      | Inr (Return coeffs) \<Rightarrow> Some (Inr coeffs)
      | Inr (Refine st') \<Rightarrow> f cfg bound G upper r st') = Some res"
  show "\<forall>e. res = Inl e \<longrightarrow> e = NumpyError"
  proof (cases "iteration cfg bound G upper r st")
    case (Inl e')
    with eq iteration_error [OF Inl] show ?thesis by auto
  next
    case (Inr out)
    show ?thesis
    proof (cases out)
      case (Return c)
      with eq Inr show ?thesis by auto
    next
      case (Refine st')
      with eq Inr have "f cfg bound G upper r st' = Some res" by simp
      then show ?thesis by (rule IH)
    qed
  qed
qed

lemma grid_axes_error: "grid_axes s bound = Inl e \<Longrightarrow> e = NotEnoughPoints"
  by (induction bound arbitrary: e) (auto simp: Let_def split: if_splits sum.splits)

lemma sample_points_regularly_error:
  "sample_points_regularly bound N = Inl e \<Longrightarrow> e \<in> {ZeroDivision, CeilError, NotEnoughPoints}"
  by (auto simp: sample_points_regularly_def Let_def split: if_splits sum.splits
      dest: grid_axes_error)

lemma initial_samples_error:
  "initial_samples cfg bound upper = Inl e \<Longrightarrow> e \<noteq> BoundsWidth"
  by (auto simp: initial_samples_def get_G_bound_def Let_def
      split: if_splits sum.splits prod.splits dest: sample_points_regularly_error)

lemma bound_one_side_error: "bound_one_side cfg bound upper \<noteq> Some (Inl BoundsWidth)"
  by (auto simp: bound_one_side_def split: sum.splits
      dest: initial_samples_error engine_loop_error)

lemma get_G_bound_many: "1 < length bound \<Longrightarrow> get_G_bound bound = Inl GNotImplemented"
  by (simp add: get_G_bound_def)

lemma bound_one_side_many:
  "1 < length bound \<Longrightarrow> bound_one_side cfg bound upper = Some (Inl GNotImplemented)"
  by (simp add: bound_one_side_def initial_samples_def get_G_bound_many)

lemma valid_region_width_check: "valid_region bound \<Longrightarrow> width_check bound"
  by (auto simp: valid_region_def width_check_def list_all_iff)

text \<open>
  The width error is the result exactly when the assertion of \<open>find_optimal_bounds\<close>
  fails: nothing after it raises that error.
\<close>

lemma find_optimal_bounds_width_error:
  "find_optimal_bounds cfg bound = Some (Inl BoundsWidth) \<longleftrightarrow> \<not> width_check bound"
  using bound_one_side_error [of cfg bound False] bound_one_side_error [of cfg bound True]
  by (auto simp: find_optimal_bounds_def split: option.splits sum.splits)

text \<open>
  C3: a region with an interval of non-positive width makes \<open>find_optimal_bounds\<close> fail at
  once with the error \<^verbatim>\<open>'Bounds must have positive width'\<close>. The code does not do that:
  its assertion compares each width with \<open>- 1e-5\<close>, so the region \<open>[0, 0]\<close> of width 0
  passes the assertion that is meant to reject it. The call goes on into
  \<open>bound_one_side\<close> and fails in the sampler, where the reference side is 0 and
  \<^verbatim>\<open>math.ceil\<close> raises on \<^verbatim>\<open>0.0 / 0.0\<close>.
\<close>

theorem C3_zero_width_not_rejected:
  "\<not> 0 < snd (0 :: real, 0 :: real) - fst (0 :: real, 0 :: real)
   \<and> width_check [(0, 0)]
   \<and> find_optimal_bounds flat_config [(0, 0)] = Some (Inl CeilError)
   \<and> find_optimal_bounds flat_config [(0, 0)] \<noteq> Some (Inl BoundsWidth)"
  by (simp add: find_optimal_bounds_def width_check_def bound_one_side_def initial_samples_def
      get_G_bound_def sample_points_regularly_def flat_config_def)

text \<open>
  C9: \<open>get_G_bound\<close> returns exactly 1 for every region of one interval and fails with its
  own error for every region of more than one. It is the first thing \<open>bound_one_side\<close>
  does, before the sampling, so that on a region of more than one interval each side fails
  with that error, and so does \<open>find_optimal_bounds\<close>: no bound is computed. A region is
  one that passes the width assertion of \<open>find_optimal_bounds\<close>, as every region of
  positive widths does.
\<close>

theorem C9_geometric_factor:
  "(length bound = 1 \<longrightarrow> get_G_bound bound = Inr 1)
   \<and> (1 < length bound \<longrightarrow>
        get_G_bound bound = Inl GNotImplemented
        \<and> bound_one_side cfg bound upper = Some (Inl GNotImplemented))
   \<and> (1 < length bound \<and> width_check bound \<longrightarrow>
        find_optimal_bounds cfg bound = Some (Inl GNotImplemented))
   \<and> (1 < length bound \<and> valid_region bound \<longrightarrow>
        find_optimal_bounds cfg bound = Some (Inl GNotImplemented))"
  by (auto simp: get_G_bound_def bound_one_side_many find_optimal_bounds_def
      dest: valid_region_width_check)

theorem C9_geometric_factor_witness:
  "length [(0 :: real, 1 :: real)] = 1 \<and> get_G_bound [(0, 1)] = Inr 1
   \<and> 1 < length [(0 :: real, 1 :: real), (0, 2)]
   \<and> valid_region [(0, 1), (0, 2)] \<and> width_check [(0, 1), (0, 2)]
   \<and> get_G_bound [(0, 1), (0, 2)] = Inl GNotImplemented
   \<and> bound_one_side flat_config [(0, 1), (0, 2)] True = Some (Inl GNotImplemented)
   \<and> find_optimal_bounds flat_config [(0, 1), (0, 2)] = Some (Inl GNotImplemented)"
  using C9_geometric_factor [of "[(0, 1)]" flat_config True]
    C9_geometric_factor [of "[(0, 1), (0, 2)]" flat_config True]
  by (simp add: width_check_def valid_region_def)

text \<open>
  C10, as stated: a bounder constructed with \<open>initial_npoints = 1\<close> and asked for the
  bounds of \<open>[0, 1]\<close> fails with the error of the grid construction. The constructor
  itself asserts that the number of points exceeds 2, and fails with that assertion.
\<close>

theorem C10_counterexample:
  "construct_and_bound [''bisect'' \<mapsto> max_value_solver] (\<lambda>p. 0) (\<lambda>p. [0]) 1 1 (1 / 100) 1
     ''bisect'' [(0, 1)] = Some (Inl TooFewInitialPoints)
   \<and> construct_and_bound [''bisect'' \<mapsto> max_value_solver] (\<lambda>p. 0) (\<lambda>p. [0]) 1 1 (1 / 100) 1
     ''bisect'' [(0, 1)] \<noteq> Some (Inl NotEnoughPoints)"
  by (simp add: construct_and_bound_def init_def)

text \<open>
  C10, amended: constructing the bounder with \<open>initial_npoints = 1\<close> fails in the
  constructor, with its assertion that the number of points exceeds 2, whatever the other
  arguments and the region; the error of the grid construction is what the sampler gives
  when it is called on \<open>[0, 1]\<close> with a sample size of 1.
\<close>

theorem C10_insufficient_points:
  "init registry tf gr l1 l2 e 1 solver_name = Inl TooFewInitialPoints
   \<and> construct_and_bound registry tf gr l1 l2 e 1 solver_name bound
       = Some (Inl TooFewInitialPoints)
   \<and> sample_points_regularly [(0, 1)] 1 = Inl NotEnoughPoints"
  by (simp add: construct_and_bound_def init_def sample_points_regularly_def)

section \<open>The bounder of the constant function 0 on \<open>[0, 1]\<close>, step by step\<close>















section \<open>Sign symmetry\<close>

lemma negate_result_simps [simp]:
  "negate_result (Inl e) = Inl e" "negate_result (Inr c) = Inr (map uminus c)"
  by (simp_all add: negate_result_def)






lemma eps_negated [simp]: "eps (negated cfg) = eps cfg"
  by (simp add: negated_def)







section \<open>The certification step\<close>







section \<open>The subdivision step\<close>

lemma select_Nil [simp]: "select [] xs = []" "select h [] = []"
  by (simp_all add: select_def)

lemma select_Cons [simp]:
  "select (b # h) (x # xs) = (if b then x # select h xs else select h xs)"
  by (simp add: select_def)





















section \<open>The regular grid\<close>

lemma swap12_involution [simp]: "swap12 (swap12 xs) = xs"
  by (cases xs rule: swap12.cases) simp_all



lemma meshgrid_points_single: "meshgrid_points [xs] = product_lists [xs]"
  by (simp add: comp_def)

















section \<open>Termination\<close>





















lemma stalling_fields [simp]:
  "eps stalling_config = 1 / 100" "L1 stalling_config = 1" "L2 stalling_config = 1"
  "target_function stalling_config = (\<lambda>p. 0)" "gradient stalling_config = (\<lambda>p. [0])"
  "discrete_solver stalling_config = stalling_solver"
  "initial_number_of_points stalling_config = 3"
  by (simp_all add: stalling_config_def flat_config_def)

lemma dot_zero [simp]: "dot [0] p = 0"
  by (cases p) (simp_all add: dot_def)
















section \<open>The cells cover the region\<close>




















end
